theory Spec2Isabelle
  imports Complex_Main
begin

section \<open>Data model of the workflow execution ledger\<close>

text \<open>
  The module \<^verbatim>\<open>keep/api/core/db.py\<close> talks to a relational store through an ORM
  session. The store is modelled as a record of tables, each table a list of rows in
  insertion order. Every function of the module takes the store and returns the store
  it leaves behind, together with its result or the exception it raises.

  A \<^verbatim>\<open>datetime\<close> is an integer number of microseconds since the epoch (the
  resolution of Python's \<^verbatim>\<open>datetime\<close>), a \<^verbatim>\<open>timedelta\<close> an integer number of
  microseconds.
\<close>

type_synonym datetime = int
type_synonym timedelta = int

definition timedelta_seconds :: "int \<Rightarrow> timedelta" where
  "timedelta_seconds s = s * 1000000"

definition timedelta_minutes :: "int \<Rightarrow> timedelta" where
  "timedelta_minutes m = m * 60000000"

definition timedelta_days :: "int \<Rightarrow> timedelta" where
  "timedelta_days d = d * 86400000000"

text \<open>
  \<^verbatim>\<open>timedelta.total_seconds()\<close>: the duration in seconds. Python returns the
  nearest float; the model keeps the exact quotient.
\<close>

definition total_seconds :: "timedelta \<Rightarrow> rat" where
  "total_seconds d = of_int d / 1000000"

text \<open>The columns of \<^verbatim>\<open>Workflow\<close> that the scheduler reads.\<close>

record workflow =
  w_id :: string
  w_tenant_id :: string
  interval :: "int option"
  is_deleted :: bool

text \<open>
  A row of \<^verbatim>\<open>WorkflowExecution\<close>. The status is the string the code stores.
  \<^verbatim>\<open>is_running\<close>, \<^verbatim>\<open>error\<close> and \<^verbatim>\<open>execution_time\<close> are not given a value
  when the row is created: \<open>None\<close> stands for the column's default.
\<close>

record workflow_execution =
  exec_id :: string
  workflow_id :: string
  tenant_id :: string
  started :: datetime
  triggered_by :: string
  execution_number :: int
  status :: string
  is_running :: "int option"
  error :: "string option"
  execution_time :: "rat option"

record workflow_to_alert_execution =
  workflow_execution_id :: string
  alert_fingerprint :: string
  event_id :: "string option"

text \<open>The messages the module writes to its logger, with their level.\<close>

datatype log_record =
    Debug_checking_workflows
  | Debug_found_workflows nat
  | Debug_constraint_met string
  | Error_ongoing_not_found string int
  | Debug_timeout_constraint_met string
  | Debug_already_running string

record db =
  workflows :: "workflow list"
  executions :: "workflow_execution list"
  alert_executions :: "workflow_to_alert_execution list"
  log :: "log_record list"

text \<open>The exceptions that leave the modelled functions.\<close>

datatype exn = IntegrityError | AttributeError | TypeError

text \<open>
  Modelled from the spec: the table declaration of \<^verbatim>\<open>WorkflowExecution\<close> (module
  \<^verbatim>\<open>keep.api.models.db.workflow\<close>) is not part of the source file. The spec gives
  its uniqueness constraint, over the workflow identifier and the execution sequence
  number (invariant I1): an insert is rejected when a row with the same pair exists.
\<close>

definition violates_unique :: "workflow_execution list \<Rightarrow> workflow_execution \<Rightarrow> bool" where
  "violates_unique rows r =
     list_ex (\<lambda>x. workflow_id x = workflow_id r \<and> execution_number x = execution_number r) rows"

text \<open>Query helpers: \<^verbatim>\<open>.first()\<close>, \<^verbatim>\<open>.limit(n)\<close>, \<^verbatim>\<open>.order_by(key.desc())\<close>.\<close>

definition first :: "'a list \<Rightarrow> 'a option" where
  "first xs = (case xs of [] \<Rightarrow> None | x # _ \<Rightarrow> Some x)"

definition limit :: "nat \<Rightarrow> 'a list \<Rightarrow> 'a list" where
  "limit n xs = take n xs"

definition order_by_desc :: "('a \<Rightarrow> int) \<Rightarrow> 'a list \<Rightarrow> 'a list" where
  "order_by_desc key xs = rev (sort_key key xs)"

section \<open>Lock acquisition\<close>

text \<open>
  \<^verbatim>\<open>create_workflow_execution\<close>. The last two arguments are what the call reads from
  its environment: the value of \<^verbatim>\<open>str(uuid4())\<close> and of \<^verbatim>\<open>datetime.now(tz=utc)\<close>.
  An optional string is truthy when it is neither \<^verbatim>\<open>None\<close> nor empty. The session
  is committed once, so the execution row and the alert link are written together or
  not at all; on \<^verbatim>\<open>IntegrityError\<close> the handler logs at debug level and
  re-raises.
\<close>

definition new_workflow_execution ::
  "string \<Rightarrow> string \<Rightarrow> string \<Rightarrow> datetime \<Rightarrow> string \<Rightarrow> int \<Rightarrow> workflow_execution" where
  "new_workflow_execution uuid wid tid now trig_by exec_number =
     \<lparr> exec_id = uuid, workflow_id = wid, tenant_id = tid, started = now,
       triggered_by = trig_by, execution_number = exec_number,
       status = ''in_progress'', is_running = None, error = None, execution_time = None \<rparr>"

definition create_workflow_execution ::
  "db \<Rightarrow> string \<Rightarrow> string \<Rightarrow> string \<Rightarrow> int \<Rightarrow> string option \<Rightarrow> string option
     \<Rightarrow> string \<Rightarrow> datetime \<Rightarrow> (exn + string) \<times> db" where
  "create_workflow_execution st wid tid trig_by exec_number ev_id fingerprint uuid now =
     (let trig_by' = (if length trig_by > 255 then take 255 trig_by else trig_by);
          we = new_workflow_execution uuid wid tid now trig_by' exec_number;
          links = (case fingerprint of
                     None \<Rightarrow> []
                   | Some fp \<Rightarrow>
                       if fp \<noteq> []
                       then [\<lparr> workflow_execution_id = exec_id we,
                                alert_fingerprint = fp, event_id = ev_id \<rparr>]
                       else [])
      in if violates_unique (executions st) we
         then (Inl IntegrityError, st\<lparr> log := log st @ [Debug_constraint_met wid] \<rparr>)
         else (Inr (exec_id we),
               st\<lparr> executions := executions st @ [we],
                    alert_executions := alert_executions st @ links \<rparr>))"

section \<open>Due-workflow scan\<close>

text \<open>
  \<^verbatim>\<open>get_last_completed_execution\<close>: the rows of the workflow whose status is one of
  three strings, ordered by execution number, highest first; the first of them.
\<close>

definition get_last_completed_execution :: "db \<Rightarrow> string \<Rightarrow> workflow_execution option" where
  "get_last_completed_execution st wid =
     first (limit 1 (order_by_desc execution_number
       (filter (\<lambda>r. workflow_id r = wid \<and>
                     (status r = ''success'' \<or> status r = ''error''
                        \<or> status r = ''providers_not_configured''))
               (executions st))))"

text \<open>
  What one iteration of the scan reads from its environment: \<^verbatim>\<open>datetime.utcnow()\<close> at
  the top of the loop body, and the identifier and clock reading of each of the (at
  most two) calls of \<^verbatim>\<open>create_workflow_execution\<close> it makes.
\<close>

record iter_env =
  current_time :: datetime
  uuid1 :: string
  now1 :: datetime
  uuid2 :: string
  now2 :: datetime

text \<open>An entry of \<^verbatim>\<open>workflows_to_run\<close>: tenant, workflow and execution identifier.\<close>

type_synonym run_entry = "string \<times> string \<times> string"

text \<open>The query for the ongoing execution, after a conflict (lines 215 to 223).\<close>

definition select_ongoing_execution :: "db \<Rightarrow> string \<Rightarrow> int \<Rightarrow> workflow_execution option" where
  "select_ongoing_execution st wid n =
     first (limit 1 (filter (\<lambda>r. workflow_id r = wid \<and> execution_number r = n) (executions st)))"

text \<open>
  The session writes a changed attribute back with an \<^verbatim>\<open>UPDATE\<close> of the row that has
  the object's primary key.
\<close>

definition update_by_id ::
  "string \<Rightarrow> (workflow_execution \<Rightarrow> workflow_execution) \<Rightarrow> workflow_execution list
     \<Rightarrow> workflow_execution list" where
  "update_by_id i f rows = map (\<lambda>r. if exec_id r = i then f r else r) rows"

text \<open>
  The timeout branch (lines 236 to 259): the ongoing execution is marked
  \<^verbatim>\<open>timeout\<close> and committed, then the lock on the next execution number is tried.
\<close>

definition timeout_reclaim ::
  "db \<Rightarrow> workflow \<Rightarrow> workflow_execution \<Rightarrow> iter_env \<Rightarrow> (exn + run_entry list) \<times> db" where
  "timeout_reclaim st w ongoing env =
     (let st1 = st\<lparr> executions :=
                     update_by_id (exec_id ongoing) (\<lambda>r. r\<lparr> status := ''timeout'' \<rparr>)
                       (executions st) \<rparr>
      in case create_workflow_execution st1 (w_id w) (w_tenant_id w) ''scheduler''
                (execution_number ongoing + 1) None None (uuid2 env) (now2 env) of
           (Inl IntegrityError, st2) \<Rightarrow>
              (Inr [], st2\<lparr> log := log st2 @ [Debug_timeout_constraint_met (w_id w)] \<rparr>)
         | (Inl e, st2) \<Rightarrow> (Inl e, st2)
         | (Inr new_id, st2) \<Rightarrow> (Inr [(w_tenant_id w, w_id w, new_id)], st2))"

text \<open>
  The decision on the re-read row (lines 226 to 259). The inner chain has no
  \<^verbatim>\<open>else\<close>: an execution in progress that is not yet stale falls through.
\<close>

definition check_ongoing_execution ::
  "db \<Rightarrow> workflow \<Rightarrow> workflow_execution \<Rightarrow> workflow_execution option \<Rightarrow> iter_env
     \<Rightarrow> (exn + run_entry list) \<times> db" where
  "check_ongoing_execution st w last_execution ongoing env =
     (case ongoing of
        None \<Rightarrow>
          (Inr [], st\<lparr> log := log st @
                     [Error_ongoing_not_found (w_id w) (execution_number last_execution + 1)] \<rparr>)
      | Some oe \<Rightarrow>
          if status oe \<noteq> ''in_progress'' then (Inr [], st)
          else if started oe + timedelta_minutes 60 \<le> current_time env
               then timeout_reclaim st w oe env
          else (Inr [], st))"

text \<open>The condition of the \<^verbatim>\<open>elif\<close> (lines 186 to 189).\<close>

definition interval_elapsed :: "workflow_execution \<Rightarrow> int \<Rightarrow> datetime \<Rightarrow> bool" where
  "interval_elapsed last_execution secs now =
     (started last_execution + timedelta_seconds secs \<le> now)"

text \<open>
  The body of the loop over the workflows (lines 164 to 263), returning the entries it
  appends to \<^verbatim>\<open>workflows_to_run\<close>. \<^verbatim>\<open>timedelta(seconds=None)\<close> raises
  \<^verbatim>\<open>TypeError\<close>.
\<close>

definition scan_workflow :: "db \<Rightarrow> workflow \<Rightarrow> iter_env \<Rightarrow> (exn + run_entry list) \<times> db" where
  "scan_workflow st w env =
     (case get_last_completed_execution st (w_id w) of
        None \<Rightarrow>
          (case create_workflow_execution st (w_id w) (w_tenant_id w) ''scheduler'' 1
                  None None (uuid1 env) (now1 env) of
             (Inr new_id, st') \<Rightarrow> (Inr [(w_tenant_id w, w_id w, new_id)], st')
           | (Inl IntegrityError, st') \<Rightarrow> (Inr [], st')
           | (Inl e, st') \<Rightarrow> (Inl e, st'))
      | Some last_execution \<Rightarrow>
          (case interval w of
             None \<Rightarrow> (Inl TypeError, st)
           | Some secs \<Rightarrow>
               if interval_elapsed last_execution secs (current_time env) then
                 (case create_workflow_execution st (w_id w) (w_tenant_id w) ''scheduler''
                         (execution_number last_execution + 1) None None
                         (uuid1 env) (now1 env) of
                    (Inr new_id, st') \<Rightarrow> (Inr [(w_tenant_id w, w_id w, new_id)], st')
                  | (Inl IntegrityError, st') \<Rightarrow>
                      check_ongoing_execution st' w last_execution
                        (select_ongoing_execution st' (w_id w)
                           (execution_number last_execution + 1)) env
                  | (Inl e, st') \<Rightarrow> (Inl e, st'))
               else (Inr [], st\<lparr> log := log st @ [Debug_already_running (w_id w)] \<rparr>)))"

text \<open>The loop: an exception of the body ends it; what was committed stays.\<close>

fun scan_loop ::
  "db \<Rightarrow> workflow list \<Rightarrow> (nat \<Rightarrow> iter_env) \<Rightarrow> nat \<Rightarrow> run_entry list
     \<Rightarrow> (exn + run_entry list) \<times> db" where
  "scan_loop st [] envs k workflows_to_run = (Inr workflows_to_run, st)"
| "scan_loop st (w # ws) envs k workflows_to_run =
     (case scan_workflow st w (envs k) of
        (Inl e, st') \<Rightarrow> (Inl e, st')
      | (Inr out, st') \<Rightarrow> scan_loop st' ws envs (Suc k) (workflows_to_run @ out))"

text \<open>
  The query of lines 153 to 159. A comparison with \<^verbatim>\<open>NULL\<close> is not true in SQL, so
  a workflow without interval is filtered out.
\<close>

definition workflows_with_interval :: "db \<Rightarrow> workflow list" where
  "workflows_with_interval st =
     filter (\<lambda>w. is_deleted w = False \<and> interval w \<noteq> None \<and>
                 (case interval w of None \<Rightarrow> False | Some i \<Rightarrow> i > 0))
            (workflows st)"

definition get_workflows_that_should_run ::
  "db \<Rightarrow> (nat \<Rightarrow> iter_env) \<Rightarrow> (exn + run_entry list) \<times> db" where
  "get_workflows_that_should_run st envs =
     (let st0 = st\<lparr> log := log st @ [Debug_checking_workflows] \<rparr>;
          wfs = workflows_with_interval st0;
          st1 = st0\<lparr> log := log st0 @ [Debug_found_workflows (length wfs)] \<rparr>
      in scan_loop st1 wfs envs 0 [])"

section \<open>Completion recorder\<close>

text \<open>
  \<^verbatim>\<open>finish_workflow_execution\<close>. The last two arguments are the value of
  \<^verbatim>\<open>random.randint(1, 2147483646)\<close> and of \<^verbatim>\<open>datetime.utcnow()\<close>. When the query
  finds no row, \<^verbatim>\<open>.first()\<close> is \<^verbatim>\<open>None\<close> and the first attribute assignment raises
  \<^verbatim>\<open>AttributeError\<close>; the session is closed without a commit.
\<close>

definition finish_workflow_execution ::
  "db \<Rightarrow> string \<Rightarrow> string \<Rightarrow> string \<Rightarrow> string \<Rightarrow> string option \<Rightarrow> int \<Rightarrow> datetime
     \<Rightarrow> (exn + unit) \<times> db" where
  "finish_workflow_execution st tid wid eid new_status err rnd now =
     (case first (filter (\<lambda>r. tenant_id r = tid \<and> workflow_id r = wid \<and> exec_id r = eid)
                    (executions st)) of
        None \<Rightarrow> (Inl AttributeError, st)
      | Some we \<Rightarrow>
          (Inr (),
           st\<lparr> executions :=
                 update_by_id (exec_id we)
                   (\<lambda>r. r\<lparr> is_running := Some rnd,
                           status := new_status,
                           error := (case err of
                                       None \<Rightarrow> None
                                     | Some e \<Rightarrow> if e \<noteq> [] then Some (take 255 e) else None),
                           execution_time := Some (total_seconds (now - started we)) \<rparr>)
                   (executions st) \<rparr>))"

section \<open>Example ledgers\<close>

text \<open>
  A workflow with an interval of 300 seconds, execution rows of that workflow, a store
  holding given rows, and the readings of one loop iteration at a given time.
\<close>

definition ex_w :: workflow where
  "ex_w = \<lparr> w_id = ''wf1'', w_tenant_id = ''t1'', interval = Some 300, is_deleted = False \<rparr>"

definition ex_exec :: "string \<Rightarrow> int \<Rightarrow> string \<Rightarrow> datetime \<Rightarrow> workflow_execution" where
  "ex_exec i n s t =
     \<lparr> exec_id = i, workflow_id = ''wf1'', tenant_id = ''t1'', started = t,
       triggered_by = ''scheduler'', execution_number = n, status = s,
       is_running = None, error = None, execution_time = None \<rparr>"

definition ex_db :: "workflow_execution list \<Rightarrow> db" where
  "ex_db rows = \<lparr> workflows = [ex_w], executions = rows, alert_executions = [], log = [] \<rparr>"

definition ex_env :: "datetime \<Rightarrow> iter_env" where
  "ex_env t = \<lparr> current_time = t, uuid1 = ''u1'', now1 = t, uuid2 = ''u2'', now2 = t \<rparr>"

section \<open>Queries and lock acquisition: basic facts\<close>

lemma first_limit_one: "first (limit 1 xs) = first xs"
  by (cases xs) (simp_all add: first_def limit_def)

lemma first_None_iff: "first xs = None \<longleftrightarrow> xs = []"
  by (cases xs) (simp_all add: first_def)

lemma first_Some_mem: "first xs = Some x \<Longrightarrow> x \<in> set xs"
  by (cases xs) (simp_all add: first_def)

lemma first_filter_Some: "first (filter P xs) = Some x \<Longrightarrow> x \<in> set xs \<and> P x"
  using first_Some_mem [of "filter P xs" x] by simp

lemma sort_key_eq_Nil: "sort_key key xs = [] \<longleftrightarrow> xs = []"
  using length_sort [of key xs] by (metis length_0_conv)

lemma sorted_le_last: "sorted (ys::int list) \<Longrightarrow> y \<in> set ys \<Longrightarrow> y \<le> last ys"
  by (induction ys) auto

lemma first_order_by_desc_None: "first (order_by_desc key xs) = None \<longleftrightarrow> xs = []"
  by (simp add: first_None_iff order_by_desc_def sort_key_eq_Nil)

lemma first_order_by_desc_Some:
  assumes "first (order_by_desc key xs) = Some x"
  shows "x \<in> set xs \<and> (\<forall>y \<in> set xs. key y \<le> key x)"
proof -
  let ?s = "sort_key key xs"
  from assms have ne: "?s \<noteq> []"
    by (auto simp: order_by_desc_def first_def)
  with assms have x: "x = last ?s"
    by (cases "rev ?s") (auto simp: order_by_desc_def first_def)
  have mem: "x \<in> set xs"
    using ne x last_in_set [of ?s] by simp
  have srt: "sorted (map key ?s)" by simp
  have "key y \<le> key x" if "y \<in> set xs" for y
  proof -
    from that have "key y \<in> set (map key ?s)" by simp
    moreover have "last (map key ?s) = key x"
      using ne x by (simp add: last_map)
    ultimately show ?thesis
      using sorted_le_last [OF srt] by metis
  qed
  with mem show ?thesis by blast
qed

lemma create_conflict:
  "\<exists>r \<in> set (executions st). workflow_id r = wid \<and> execution_number r = n \<Longrightarrow>
   create_workflow_execution st wid tid trig n ev fp uuid now =
     (Inl IntegrityError, st\<lparr> log := log st @ [Debug_constraint_met wid] \<rparr>)"
  by (auto simp: create_workflow_execution_def violates_unique_def list_ex_iff Let_def
        new_workflow_execution_def)

lemma create_fresh:
  "\<not> (\<exists>r \<in> set (executions st). workflow_id r = wid \<and> execution_number r = n) \<Longrightarrow>
   fp = None \<Longrightarrow>
   create_workflow_execution st wid tid trig n ev fp uuid now =
     (Inr uuid, st\<lparr> executions := executions st @
        [new_workflow_execution uuid wid tid now (take 255 trig) n] \<rparr>)"
  by (auto simp: create_workflow_execution_def violates_unique_def list_ex_iff Let_def
        new_workflow_execution_def)

section \<open>Claims\<close>

text \<open>
  C1. \<^verbatim>\<open>create_workflow_execution\<close> either inserts a new row with the given
  execution number and status \<^verbatim>\<open>in_progress\<close> and returns its identifier, or, exactly
  when a row with the same workflow identifier and execution number exists, raises
  \<^verbatim>\<open>IntegrityError\<close> and leaves the tables as they were.
\<close>

theorem create_workflow_execution_inserts_or_conflicts:
  "(if \<exists>r \<in> set (executions st). workflow_id r = wid \<and> execution_number r = n
    then fst (create_workflow_execution st wid tid trig n ev fp uuid now) = Inl IntegrityError
       \<and> executions (snd (create_workflow_execution st wid tid trig n ev fp uuid now))
           = executions st
       \<and> alert_executions (snd (create_workflow_execution st wid tid trig n ev fp uuid now))
           = alert_executions st
    else fst (create_workflow_execution st wid tid trig n ev fp uuid now) = Inr uuid
       \<and> executions (snd (create_workflow_execution st wid tid trig n ev fp uuid now))
           = executions st @ [new_workflow_execution uuid wid tid now (take 255 trig) n]
       \<and> execution_number (new_workflow_execution uuid wid tid now (take 255 trig) n) = n
       \<and> status (new_workflow_execution uuid wid tid now (take 255 trig) n) = ''in_progress''
       \<and> exec_id (new_workflow_execution uuid wid tid now (take 255 trig) n) = uuid)"
  by (auto simp: create_workflow_execution_def violates_unique_def list_ex_iff Let_def
        new_workflow_execution_def)

theorem create_workflow_execution_inserts_or_conflicts_witness:
  "fst (create_workflow_execution (ex_db [ex_exec ''e1'' 1 ''success'' 0])
          ''wf1'' ''t1'' ''scheduler'' 1 None None ''u1'' 5) = Inl IntegrityError
   \<and> fst (create_workflow_execution (ex_db [ex_exec ''e1'' 1 ''success'' 0])
          ''wf1'' ''t1'' ''scheduler'' 2 None None ''u1'' 5) = Inr ''u1''"
  using create_workflow_execution_inserts_or_conflicts [where st = "ex_db [ex_exec ''e1'' 1 ''success'' 0]" and wid = "''wf1''"
              and tid = "''t1''" and trig = "''scheduler''" and n = 1 and ev = None
              and fp = None and uuid = "''u1''" and now = 5]
        create_workflow_execution_inserts_or_conflicts [where st = "ex_db [ex_exec ''e1'' 1 ''success'' 0]" and wid = "''wf1''"
              and tid = "''t1''" and trig = "''scheduler''" and n = 2 and ev = None
              and fp = None and uuid = "''u1''" and now = 5]
  by (simp add: ex_db_def ex_exec_def)

lemma create_None_eq:
  "create_workflow_execution st wid tid trig n ev None uuid now =
     (if \<exists>r \<in> set (executions st). workflow_id r = wid \<and> execution_number r = n
      then (Inl IntegrityError, st\<lparr> log := log st @ [Debug_constraint_met wid] \<rparr>)
      else (Inr uuid, st\<lparr> executions := executions st @
              [new_workflow_execution uuid wid tid now (take 255 trig) n] \<rparr>))"
  by (auto simp: create_workflow_execution_def violates_unique_def list_ex_iff Let_def
        new_workflow_execution_def)

lemma select_ongoing_log [simp]:
  "select_ongoing_execution (st\<lparr> log := l \<rparr>) wid n = select_ongoing_execution st wid n"
  by (simp add: select_ongoing_execution_def)

text \<open>
  C2. When the lock on execution number \<open>last + 1\<close> is refused, the scan reads the row
  with that number again and decides on it: no row, an error is logged and nothing is
  written; a row that is not \<^verbatim>\<open>in_progress\<close>, nothing is done; a row in progress
  for less than 60 minutes, nothing is done; a row in progress for 60 minutes or more,
  the timeout branch runs.
\<close>

theorem scan_conflict_rereads_and_decides:
  "(get_last_completed_execution st (w_id w) = Some l \<and> interval w = Some secs
      \<and> interval_elapsed l secs (current_time env)
      \<and> (\<exists>r \<in> set (executions st).
            workflow_id r = w_id w \<and> execution_number r = execution_number l + 1)
    \<longrightarrow> scan_workflow st w env =
          check_ongoing_execution (st\<lparr> log := log st @ [Debug_constraint_met (w_id w)] \<rparr>) w l
            (select_ongoing_execution st (w_id w) (execution_number l + 1)) env)
   \<and> check_ongoing_execution st w l None env =
        (Inr [], st\<lparr> log := log st @
                  [Error_ongoing_not_found (w_id w) (execution_number l + 1)] \<rparr>)
   \<and> (status oe \<noteq> ''in_progress''
        \<longrightarrow> check_ongoing_execution st w l (Some oe) env = (Inr [], st))
   \<and> (status oe = ''in_progress'' \<and> current_time env < started oe + timedelta_minutes 60
        \<longrightarrow> check_ongoing_execution st w l (Some oe) env = (Inr [], st))
   \<and> (status oe = ''in_progress'' \<and> started oe + timedelta_minutes 60 \<le> current_time env
        \<longrightarrow> check_ongoing_execution st w l (Some oe) env = timeout_reclaim st w oe env)"
proof -
  have "scan_workflow st w env =
          check_ongoing_execution (st\<lparr> log := log st @ [Debug_constraint_met (w_id w)] \<rparr>) w l
            (select_ongoing_execution st (w_id w) (execution_number l + 1)) env"
    if "get_last_completed_execution st (w_id w) = Some l" "interval w = Some secs"
       "interval_elapsed l secs (current_time env)"
       "\<exists>r \<in> set (executions st).
            workflow_id r = w_id w \<and> execution_number r = execution_number l + 1"
    using that by (simp add: scan_workflow_def create_None_eq)
  then show ?thesis
    by (simp add: check_ongoing_execution_def)
qed

theorem scan_conflict_rereads_and_decides_witness:
  "scan_workflow
     (ex_db [ex_exec ''e1'' 1 ''success'' 0, ex_exec ''e2'' 2 ''in_progress'' 1000])
     ex_w (ex_env 4000000000) =
   timeout_reclaim
     ((ex_db [ex_exec ''e1'' 1 ''success'' 0, ex_exec ''e2'' 2 ''in_progress'' 1000])
        \<lparr> log := log (ex_db [ex_exec ''e1'' 1 ''success'' 0,
                               ex_exec ''e2'' 2 ''in_progress'' 1000])
                    @ [Debug_constraint_met (w_id ex_w)] \<rparr>)
     ex_w (ex_exec ''e2'' 2 ''in_progress'' 1000) (ex_env 4000000000)
   \<and> check_ongoing_execution (ex_db []) ex_w (ex_exec ''e1'' 1 ''success'' 0)
        (Some (ex_exec ''e2'' 2 ''error'' 1000)) (ex_env 4000000000) = (Inr [], ex_db [])
   \<and> check_ongoing_execution (ex_db []) ex_w (ex_exec ''e1'' 1 ''success'' 0)
        (Some (ex_exec ''e2'' 2 ''in_progress'' 1000)) (ex_env 3600000999) = (Inr [], ex_db [])"
proof -
  let ?l = "ex_exec ''e1'' 1 ''success'' 0"
  let ?oe = "ex_exec ''e2'' 2 ''in_progress'' 1000"
  let ?st = "ex_db [?l, ?oe]"
  let ?st' = "?st\<lparr> log := log ?st @ [Debug_constraint_met (w_id ex_w)] \<rparr>"
  let ?env = "ex_env 4000000000"
  have h1: "get_last_completed_execution ?st (w_id ex_w) = Some ?l"
    by (simp add: get_last_completed_execution_def ex_db_def ex_exec_def ex_w_def
          first_def limit_def order_by_desc_def)
  have h2: "interval ex_w = Some 300"
    by (simp add: ex_w_def)
  have h3: "interval_elapsed ?l 300 (current_time ?env)"
    by (simp add: interval_elapsed_def ex_exec_def ex_env_def timedelta_seconds_def)
  have h4: "\<exists>r \<in> set (executions ?st).
              workflow_id r = w_id ex_w \<and> execution_number r = execution_number ?l + 1"
    by (simp add: ex_db_def ex_exec_def ex_w_def)
  have sel: "select_ongoing_execution ?st (w_id ex_w) (execution_number ?l + 1) = Some ?oe"
    by (simp add: select_ongoing_execution_def ex_db_def ex_exec_def ex_w_def
          first_def limit_def)
  have h5: "status ?oe = ''in_progress'' \<and> started ?oe + timedelta_minutes 60 \<le> current_time ?env"
    by (simp add: ex_exec_def ex_env_def timedelta_minutes_def)
  have h6: "status (ex_exec ''e2'' 2 ''error'' 1000) \<noteq> ''in_progress''"
    by (simp add: ex_exec_def)
  have h7: "status ?oe = ''in_progress'' \<and>
            current_time (ex_env 3600000999) < started ?oe + timedelta_minutes 60"
    by (simp add: ex_exec_def ex_env_def timedelta_minutes_def)
  have tie: "scan_workflow ?st ex_w ?env =
      check_ongoing_execution ?st' ex_w ?l
        (select_ongoing_execution ?st (w_id ex_w) (execution_number ?l + 1)) ?env"
    using scan_conflict_rereads_and_decides
            [where st = ?st and w = ex_w and l = ?l and secs = 300 and env = ?env and oe = ?oe]
          h1 h2 h3 h4
    by blast
  have hand: "check_ongoing_execution ?st' ex_w ?l (Some ?oe) ?env =
      timeout_reclaim ?st' ex_w ?oe ?env"
    using scan_conflict_rereads_and_decides
            [where st = ?st' and w = ex_w and l = ?l and secs = 300 and env = ?env and oe = ?oe]
          h5
    by blast
  have b: "check_ongoing_execution (ex_db []) ex_w ?l
        (Some (ex_exec ''e2'' 2 ''error'' 1000)) ?env = (Inr [], ex_db [])"
    using scan_conflict_rereads_and_decides
            [where st = "ex_db []" and w = ex_w and l = ?l and secs = 300 and env = ?env
               and oe = "ex_exec ''e2'' 2 ''error'' 1000"]
          h6
    by blast
  have c: "check_ongoing_execution (ex_db []) ex_w ?l (Some ?oe) (ex_env 3600000999) =
        (Inr [], ex_db [])"
    using scan_conflict_rereads_and_decides
            [where st = "ex_db []" and w = ex_w and l = ?l and secs = 300
               and env = "ex_env 3600000999" and oe = ?oe]
          h7
    by blast
  from tie sel hand b c show ?thesis
    by (simp only: simp_thms)
qed

lemma update_by_id_keys:
  "(\<exists>r \<in> set (update_by_id i (\<lambda>r. r\<lparr> status := s \<rparr>) rows).
        workflow_id r = wid \<and> execution_number r = n)
   \<longleftrightarrow> (\<exists>r \<in> set rows. workflow_id r = wid \<and> execution_number r = n)"
  by (induction rows) (auto simp: update_by_id_def)

lemma timeout_reclaim_conflict:
  assumes "\<exists>r \<in> set (executions st).
            workflow_id r = w_id w \<and> execution_number r = execution_number oe + 1"
  shows "timeout_reclaim st w oe env =
      (Inr [],
       st\<lparr> executions := update_by_id (exec_id oe) (\<lambda>r. r\<lparr> status := ''timeout'' \<rparr>)
                            (executions st),
           log := log st @ [Debug_constraint_met (w_id w),
                            Debug_timeout_constraint_met (w_id w)] \<rparr>)"
proof -
  let ?st1 = "st\<lparr> executions := update_by_id (exec_id oe) (\<lambda>r. r\<lparr> status := ''timeout'' \<rparr>)
                            (executions st) \<rparr>"
  from assms have "\<exists>r \<in> set (executions ?st1).
            workflow_id r = w_id w \<and> execution_number r = execution_number oe + 1"
    by (simp add: update_by_id_keys)
  from create_conflict [OF this]
  show ?thesis
    by (simp add: timeout_reclaim_def Let_def)
qed

lemma timeout_reclaim_fresh:
  assumes "\<not> (\<exists>r \<in> set (executions st).
            workflow_id r = w_id w \<and> execution_number r = execution_number oe + 1)"
  shows "timeout_reclaim st w oe env =
      (Inr [(w_tenant_id w, w_id w, uuid2 env)],
       st\<lparr> executions := update_by_id (exec_id oe) (\<lambda>r. r\<lparr> status := ''timeout'' \<rparr>)
                            (executions st) @
             [new_workflow_execution (uuid2 env) (w_id w) (w_tenant_id w) (now2 env)
                ''scheduler'' (execution_number oe + 1)] \<rparr>)"
proof -
  let ?st1 = "st\<lparr> executions := update_by_id (exec_id oe) (\<lambda>r. r\<lparr> status := ''timeout'' \<rparr>)
                            (executions st) \<rparr>"
  from assms have "\<not> (\<exists>r \<in> set (executions ?st1).
            workflow_id r = w_id w \<and> execution_number r = execution_number oe + 1)"
    by (simp add: update_by_id_keys)
  from create_fresh [OF this refl, of "w_tenant_id w" "''scheduler''" None "uuid2 env" "now2 env"]
  show ?thesis
    by (simp add: timeout_reclaim_def Let_def)
qed

text \<open>
  C3. For an ongoing execution that is \<^verbatim>\<open>in_progress\<close> and started 60 minutes or more
  before the current time, the scan first writes the status \<^verbatim>\<open>timeout\<close> to that row
  and then tries the lock on the row's execution number plus one. If the lock is
  refused, nothing is returned for the workflow and only debug messages are logged;
  if it is acquired, the new execution is returned for \<^verbatim>\<open>workflows_to_run\<close>.
\<close>

theorem timeout_reclaim_marks_then_acquires:
  "status oe = ''in_progress'' \<and> started oe + timedelta_minutes 60 \<le> current_time env
   \<longrightarrow>
     (\<forall>r \<in> set (update_by_id (exec_id oe) (\<lambda>r. r\<lparr> status := ''timeout'' \<rparr>) (executions st)).
         exec_id r = exec_id oe \<longrightarrow> status r = ''timeout'')
   \<and> (\<forall>r \<in> set (executions st).
         exec_id r \<noteq> exec_id oe \<longrightarrow>
         r \<in> set (update_by_id (exec_id oe) (\<lambda>r. r\<lparr> status := ''timeout'' \<rparr>) (executions st)))
   \<and> check_ongoing_execution st w l (Some oe) env =
     (if \<exists>r \<in> set (executions st).
            workflow_id r = w_id w \<and> execution_number r = execution_number oe + 1
      then (Inr [],
            st\<lparr> executions := update_by_id (exec_id oe) (\<lambda>r. r\<lparr> status := ''timeout'' \<rparr>)
                                 (executions st),
                log := log st @ [Debug_constraint_met (w_id w),
                                 Debug_timeout_constraint_met (w_id w)] \<rparr>)
      else (Inr [(w_tenant_id w, w_id w, uuid2 env)],
            st\<lparr> executions := update_by_id (exec_id oe) (\<lambda>r. r\<lparr> status := ''timeout'' \<rparr>)
                                 (executions st) @
                  [new_workflow_execution (uuid2 env) (w_id w) (w_tenant_id w) (now2 env)
                     ''scheduler'' (execution_number oe + 1)] \<rparr>))"
proof (intro impI conjI)
  show "\<forall>r \<in> set (update_by_id (exec_id oe) (\<lambda>r. r\<lparr> status := ''timeout'' \<rparr>) (executions st)).
         exec_id r = exec_id oe \<longrightarrow> status r = ''timeout''"
    by (auto simp: update_by_id_def)
next
  show "\<forall>r \<in> set (executions st).
         exec_id r \<noteq> exec_id oe \<longrightarrow>
         r \<in> set (update_by_id (exec_id oe) (\<lambda>r. r\<lparr> status := ''timeout'' \<rparr>) (executions st))"
    by (auto simp: update_by_id_def)
next
  assume stale: "status oe = ''in_progress'' \<and> started oe + timedelta_minutes 60 \<le> current_time env"
  then have hand: "check_ongoing_execution st w l (Some oe) env = timeout_reclaim st w oe env"
    by (simp add: check_ongoing_execution_def)
  show "check_ongoing_execution st w l (Some oe) env =
     (if \<exists>r \<in> set (executions st).
            workflow_id r = w_id w \<and> execution_number r = execution_number oe + 1
      then (Inr [],
            st\<lparr> executions := update_by_id (exec_id oe) (\<lambda>r. r\<lparr> status := ''timeout'' \<rparr>)
                                 (executions st),
                log := log st @ [Debug_constraint_met (w_id w),
                                 Debug_timeout_constraint_met (w_id w)] \<rparr>)
      else (Inr [(w_tenant_id w, w_id w, uuid2 env)],
            st\<lparr> executions := update_by_id (exec_id oe) (\<lambda>r. r\<lparr> status := ''timeout'' \<rparr>)
                                 (executions st) @
                  [new_workflow_execution (uuid2 env) (w_id w) (w_tenant_id w) (now2 env)
                     ''scheduler'' (execution_number oe + 1)] \<rparr>))"
  proof (cases "\<exists>r \<in> set (executions st).
            workflow_id r = w_id w \<and> execution_number r = execution_number oe + 1")
    case True
    show ?thesis
      unfolding hand timeout_reclaim_conflict [OF True] using True by (simp only: if_True)
  next
    case False
    show ?thesis
      unfolding hand timeout_reclaim_fresh [OF False] using False by (simp only: if_False)
  qed
qed

theorem timeout_reclaim_marks_then_acquires_witness:
  "check_ongoing_execution
     (ex_db [ex_exec ''e1'' 1 ''success'' 0, ex_exec ''e2'' 2 ''in_progress'' 0])
     ex_w (ex_exec ''e1'' 1 ''success'' 0) (Some (ex_exec ''e2'' 2 ''in_progress'' 0))
     (ex_env 3660000000) =
   (Inr [(''t1'', ''wf1'', ''u2'')],
    ex_db [ex_exec ''e1'' 1 ''success'' 0, ex_exec ''e2'' 2 ''timeout'' 0,
           ex_exec ''u2'' 3 ''in_progress'' 3660000000])"
  using timeout_reclaim_marks_then_acquires
          [where st = "ex_db [ex_exec ''e1'' 1 ''success'' 0, ex_exec ''e2'' 2 ''in_progress'' 0]"
             and w = ex_w and l = "ex_exec ''e1'' 1 ''success'' 0"
             and oe = "ex_exec ''e2'' 2 ''in_progress'' 0" and env = "ex_env 3660000000"]
  by (simp add: ex_db_def ex_exec_def ex_w_def ex_env_def timedelta_minutes_def
        update_by_id_def new_workflow_execution_def)

lemma scan_workflow_not_due:
  assumes "get_last_completed_execution st (w_id w) = Some l" "interval w = Some secs"
    and "\<not> interval_elapsed l secs (current_time env)"
  shows "scan_workflow st w env =
           (Inr [], st\<lparr> log := log st @ [Debug_already_running (w_id w)] \<rparr>)"
  using assms by (simp add: scan_workflow_def)

lemma scan_workflow_due_conflict:
  assumes "get_last_completed_execution st (w_id w) = Some l" "interval w = Some secs"
    and "interval_elapsed l secs (current_time env)"
    and c: "\<exists>r \<in> set (executions st).
              workflow_id r = w_id w \<and> execution_number r = execution_number l + 1"
  shows "scan_workflow st w env =
           check_ongoing_execution (st\<lparr> log := log st @ [Debug_constraint_met (w_id w)] \<rparr>) w l
             (select_ongoing_execution st (w_id w) (execution_number l + 1)) env"
  using assms(1-3)
    create_conflict [OF c, of "w_tenant_id w" "''scheduler''" None None "uuid1 env" "now1 env"]
  by (simp add: scan_workflow_def)

lemma scan_workflow_due_fresh:
  assumes "get_last_completed_execution st (w_id w) = Some l" "interval w = Some secs"
    and "interval_elapsed l secs (current_time env)"
    and c: "\<not> (\<exists>r \<in> set (executions st).
              workflow_id r = w_id w \<and> execution_number r = execution_number l + 1)"
  shows "scan_workflow st w env =
           (Inr [(w_tenant_id w, w_id w, uuid1 env)],
            st\<lparr> executions := executions st @
               [new_workflow_execution (uuid1 env) (w_id w) (w_tenant_id w) (now1 env)
                  ''scheduler'' (execution_number l + 1)] \<rparr>)"
  using assms(1-3)
    create_fresh [OF c refl, of "w_tenant_id w" "''scheduler''" None "uuid1 env" "now1 env"]
  by (simp add: scan_workflow_def)

lemma scan_workflow_never_run_conflict:
  assumes "get_last_completed_execution st (w_id w) = None"
    and c: "\<exists>r \<in> set (executions st). workflow_id r = w_id w \<and> execution_number r = 1"
  shows "scan_workflow st w env =
           (Inr [], st\<lparr> log := log st @ [Debug_constraint_met (w_id w)] \<rparr>)"
  using assms(1)
    create_conflict [OF c, of "w_tenant_id w" "''scheduler''" None None "uuid1 env" "now1 env"]
  by (simp add: scan_workflow_def)

lemma scan_workflow_never_run_fresh:
  assumes "get_last_completed_execution st (w_id w) = None"
    and c: "\<not> (\<exists>r \<in> set (executions st). workflow_id r = w_id w \<and> execution_number r = 1)"
  shows "scan_workflow st w env =
           (Inr [(w_tenant_id w, w_id w, uuid1 env)],
            st\<lparr> executions := executions st @
               [new_workflow_execution (uuid1 env) (w_id w) (w_tenant_id w) (now1 env)
                  ''scheduler'' 1] \<rparr>)"
  using assms(1)
    create_fresh [OF c refl, of "w_tenant_id w" "''scheduler''" None "uuid1 env" "now1 env"]
  by (simp add: scan_workflow_def)

lemma scan_loop_extends:
  "scan_loop st ws envs k acc = (Inr res, st') \<Longrightarrow> \<exists>rest. res = acc @ rest"
proof (induction ws arbitrary: st k acc)
  case Nil
  then show ?case by simp
next
  case (Cons w ws)
  show ?case
  proof (cases "scan_workflow st w (envs k)")
    case (Pair r st1)
    show ?thesis
    proof (cases r)
      case (Inl e)
      with Pair Cons.prems show ?thesis by simp
    next
      case (Inr out)
      with Pair Cons.prems have "scan_loop st1 ws envs (Suc k) (acc @ out) = (Inr res, st')"
        by simp
      from Cons.IH [OF this] show ?thesis by auto
    qed
  qed
qed

text \<open>
  C4. For a workflow with a last completed execution, the scan runs the workflow if
  and only if the current time is at or after the start of that execution plus the
  interval. With an interval of 300 seconds an execution started 299 seconds ago is
  not due and one started 300 seconds ago is. When due, the scan tries the lock on the
  last execution number plus one: a free number gives the new row and its entry, a
  taken number gives the refused insert (its debug message) and the re-read.
\<close>

theorem scan_due_iff_interval_elapsed:
  "get_last_completed_execution st (w_id w) = Some l \<and> interval w = Some secs \<longrightarrow>
     (interval_elapsed l secs (current_time env)
        \<longleftrightarrow> started l + secs * 1000000 \<le> current_time env)
   \<and> (\<not> interval_elapsed l secs (current_time env) \<longrightarrow>
         scan_workflow st w env =
           (Inr [], st\<lparr> log := log st @ [Debug_already_running (w_id w)] \<rparr>))
   \<and> (interval_elapsed l secs (current_time env)
        \<and> \<not> (\<exists>r \<in> set (executions st).
                workflow_id r = w_id w \<and> execution_number r = execution_number l + 1) \<longrightarrow>
         scan_workflow st w env =
           (Inr [(w_tenant_id w, w_id w, uuid1 env)],
            st\<lparr> executions := executions st @
               [new_workflow_execution (uuid1 env) (w_id w) (w_tenant_id w) (now1 env)
                  ''scheduler'' (execution_number l + 1)] \<rparr>))
   \<and> (interval_elapsed l secs (current_time env)
        \<and> (\<exists>r \<in> set (executions st).
                workflow_id r = w_id w \<and> execution_number r = execution_number l + 1) \<longrightarrow>
         scan_workflow st w env =
           check_ongoing_execution (st\<lparr> log := log st @ [Debug_constraint_met (w_id w)] \<rparr>) w l
             (select_ongoing_execution st (w_id w) (execution_number l + 1)) env)
   \<and> (secs = 300 \<and> started l = current_time env - timedelta_seconds 299
        \<longrightarrow> \<not> interval_elapsed l secs (current_time env))
   \<and> (secs = 300 \<and> started l = current_time env - timedelta_seconds 300
        \<longrightarrow> interval_elapsed l secs (current_time env))"
proof (intro impI)
  assume h: "get_last_completed_execution st (w_id w) = Some l \<and> interval w = Some secs"
  then have h1: "get_last_completed_execution st (w_id w) = Some l"
    and h2: "interval w = Some secs" by simp_all
  have a: "interval_elapsed l secs (current_time env)
        \<longleftrightarrow> started l + secs * 1000000 \<le> current_time env"
    by (simp add: interval_elapsed_def timedelta_seconds_def)
  have e: "secs = 300 \<and> started l = current_time env - timedelta_seconds 299
        \<longrightarrow> \<not> interval_elapsed l secs (current_time env)"
    by (simp add: interval_elapsed_def timedelta_seconds_def)
  have f: "secs = 300 \<and> started l = current_time env - timedelta_seconds 300
        \<longrightarrow> interval_elapsed l secs (current_time env)"
    by (simp add: interval_elapsed_def timedelta_seconds_def)
  from a e f scan_workflow_not_due [OF h1 h2] scan_workflow_due_fresh [OF h1 h2]
    scan_workflow_due_conflict [OF h1 h2]
  show "(interval_elapsed l secs (current_time env)
        \<longleftrightarrow> started l + secs * 1000000 \<le> current_time env)
   \<and> (\<not> interval_elapsed l secs (current_time env) \<longrightarrow>
         scan_workflow st w env =
           (Inr [], st\<lparr> log := log st @ [Debug_already_running (w_id w)] \<rparr>))
   \<and> (interval_elapsed l secs (current_time env)
        \<and> \<not> (\<exists>r \<in> set (executions st).
                workflow_id r = w_id w \<and> execution_number r = execution_number l + 1) \<longrightarrow>
         scan_workflow st w env =
           (Inr [(w_tenant_id w, w_id w, uuid1 env)],
            st\<lparr> executions := executions st @
               [new_workflow_execution (uuid1 env) (w_id w) (w_tenant_id w) (now1 env)
                  ''scheduler'' (execution_number l + 1)] \<rparr>))
   \<and> (interval_elapsed l secs (current_time env)
        \<and> (\<exists>r \<in> set (executions st).
                workflow_id r = w_id w \<and> execution_number r = execution_number l + 1) \<longrightarrow>
         scan_workflow st w env =
           check_ongoing_execution (st\<lparr> log := log st @ [Debug_constraint_met (w_id w)] \<rparr>) w l
             (select_ongoing_execution st (w_id w) (execution_number l + 1)) env)
   \<and> (secs = 300 \<and> started l = current_time env - timedelta_seconds 299
        \<longrightarrow> \<not> interval_elapsed l secs (current_time env))
   \<and> (secs = 300 \<and> started l = current_time env - timedelta_seconds 300
        \<longrightarrow> interval_elapsed l secs (current_time env))"
    by blast
qed

theorem scan_due_iff_interval_elapsed_witness:
  "scan_workflow (ex_db [ex_exec ''e1'' 1 ''success'' 1000000]) ex_w (ex_env 300000000) =
     (Inr [], (ex_db [ex_exec ''e1'' 1 ''success'' 1000000])
                \<lparr> log := log (ex_db [ex_exec ''e1'' 1 ''success'' 1000000])
                            @ [Debug_already_running (w_id ex_w)] \<rparr>)
   \<and> scan_workflow (ex_db [ex_exec ''e1'' 1 ''success'' 1000000]) ex_w (ex_env 301000000) =
     (Inr [(w_tenant_id ex_w, w_id ex_w, uuid1 (ex_env 301000000))],
      (ex_db [ex_exec ''e1'' 1 ''success'' 1000000])
        \<lparr> executions := executions (ex_db [ex_exec ''e1'' 1 ''success'' 1000000]) @
             [new_workflow_execution (uuid1 (ex_env 301000000)) (w_id ex_w) (w_tenant_id ex_w)
                (now1 (ex_env 301000000)) ''scheduler''
                (execution_number (ex_exec ''e1'' 1 ''success'' 1000000) + 1)] \<rparr>)"
proof -
  let ?l = "ex_exec ''e1'' 1 ''success'' 1000000"
  let ?st = "ex_db [?l]"
  have h1: "get_last_completed_execution ?st (w_id ex_w) = Some ?l \<and> interval ex_w = Some 300"
    by (simp add: get_last_completed_execution_def ex_db_def ex_exec_def ex_w_def
          first_def limit_def order_by_desc_def)
  have h2: "300 = (300::int) \<and> started ?l = current_time (ex_env 300000000) - timedelta_seconds 299"
    by (simp add: ex_exec_def ex_env_def timedelta_seconds_def)
  have h3: "300 = (300::int) \<and> started ?l = current_time (ex_env 301000000) - timedelta_seconds 300"
    by (simp add: ex_exec_def ex_env_def timedelta_seconds_def)
  have h4: "\<not> (\<exists>r \<in> set (executions ?st).
                workflow_id r = w_id ex_w \<and> execution_number r = execution_number ?l + 1)"
    by (simp add: ex_db_def ex_exec_def ex_w_def)
  from scan_due_iff_interval_elapsed
         [where st = ?st and w = ex_w and l = ?l and secs = 300 and env = "ex_env 300000000"]
       scan_due_iff_interval_elapsed
         [where st = ?st and w = ex_w and l = ?l and secs = 300 and env = "ex_env 301000000"]
       h1 h2 h3 h4
  show ?thesis by blast
qed

lemma timeout_reclaim_returns:
  "\<exists>out st'. timeout_reclaim st w oe env = (Inr out, st')"
proof (cases "\<exists>r \<in> set (executions st).
            workflow_id r = w_id w \<and> execution_number r = execution_number oe + 1")
  case True
  from timeout_reclaim_conflict [OF True] show ?thesis by blast
next
  case False
  from timeout_reclaim_fresh [OF False] show ?thesis by blast
qed

lemma check_ongoing_execution_returns:
  "\<exists>out st'. check_ongoing_execution st w l ongoing env = (Inr out, st')"
proof (cases ongoing)
  case None
  then show ?thesis by (simp add: check_ongoing_execution_def)
next
  case (Some oe)
  show ?thesis
  proof (cases "status oe = ''in_progress''
                  \<and> started oe + timedelta_minutes 60 \<le> current_time env")
    case True
    with Some have "check_ongoing_execution st w l ongoing env = timeout_reclaim st w oe env"
      by (simp add: check_ongoing_execution_def)
    with timeout_reclaim_returns [of st w oe env] show ?thesis by simp
  next
    case False
    with Some have "check_ongoing_execution st w l ongoing env = (Inr [], st)"
      by (auto simp: check_ongoing_execution_def)
    then show ?thesis by blast
  qed
qed

lemma scan_workflow_returns:
  assumes "interval w \<noteq> None"
  shows "\<exists>out st'. scan_workflow st w env = (Inr out, st')"
proof (cases "get_last_completed_execution st (w_id w)")
  case None
  show ?thesis
  proof (cases "\<exists>r \<in> set (executions st). workflow_id r = w_id w \<and> execution_number r = 1")
    case True
    from scan_workflow_never_run_conflict [OF None True] show ?thesis by blast
  next
    case False
    from scan_workflow_never_run_fresh [OF None False] show ?thesis by blast
  qed
next
  case (Some l)
  from assms obtain secs where secs: "interval w = Some secs" by blast
  show ?thesis
  proof (cases "interval_elapsed l secs (current_time env)")
    case False
    from scan_workflow_not_due [OF Some secs False] show ?thesis by blast
  next
    case True
    show ?thesis
    proof (cases "\<exists>r \<in> set (executions st).
              workflow_id r = w_id w \<and> execution_number r = execution_number l + 1")
      case False
      from scan_workflow_due_fresh [OF Some secs True False] show ?thesis by blast
    next
      case c: True
      from scan_workflow_due_conflict [OF Some secs True c]
        check_ongoing_execution_returns
      show ?thesis by metis
    qed
  qed
qed

lemma scan_loop_returns:
  "\<forall>w \<in> set ws. interval w \<noteq> None \<Longrightarrow>
   \<exists>res st'. scan_loop st ws envs k acc = (Inr res, st')"
proof (induction ws arbitrary: st k acc)
  case Nil
  then show ?case by simp
next
  case (Cons w ws)
  then have "interval w \<noteq> None" by simp
  from scan_workflow_returns [OF this, of st "envs k"]
  obtain out st1 where sw: "scan_workflow st w (envs k) = (Inr out, st1)" by blast
  from Cons.prems have "\<forall>w \<in> set ws. interval w \<noteq> None" by simp
  from Cons.IH [OF this, of st1 "Suc k" "acc @ out"] sw
  show ?case by simp
qed

lemma get_workflows_that_should_run_returns:
  "\<exists>res st'. get_workflows_that_should_run st envs = (Inr res, st')"
proof -
  have "\<forall>w \<in> set (workflows_with_interval (st\<lparr> log := log st @ [Debug_checking_workflows] \<rparr>)).
          interval w \<noteq> None"
    by (simp add: workflows_with_interval_def)
  from scan_loop_returns [OF this]
  show ?thesis
    by (simp add: get_workflows_that_should_run_def Let_def)
qed

text \<open>
  C8. For a workflow without a completed execution the scan tries the lock on
  execution number 1, with \<^verbatim>\<open>triggered_by\<close> set to \<^verbatim>\<open>scheduler\<close>, whatever the time.
  When the lock is acquired the tuple of tenant, workflow and new execution identifier
  is in the list the scan returns (and the scan does return a list when the remaining
  workflows have an interval, as the query guarantees); when it is refused the loop goes on to the next
  workflow with the ledger unchanged and nothing added. (The loop only visits
  workflows that are not deleted and have a positive interval.)
\<close>

theorem scan_never_run_acquires_first:
  "get_last_completed_execution st (w_id w) = None \<longrightarrow>
     ((\<exists>r \<in> set (executions st). workflow_id r = w_id w \<and> execution_number r = 1) \<longrightarrow>
        scan_workflow st w (envs k) =
          (Inr [], st\<lparr> log := log st @ [Debug_constraint_met (w_id w)] \<rparr>)
      \<and> scan_loop st (w # ws) envs k acc =
          scan_loop (st\<lparr> log := log st @ [Debug_constraint_met (w_id w)] \<rparr>) ws envs (Suc k) acc)
   \<and> (\<not> (\<exists>r \<in> set (executions st). workflow_id r = w_id w \<and> execution_number r = 1) \<longrightarrow>
        scan_workflow st w (envs k) =
          (Inr [(w_tenant_id w, w_id w, uuid1 (envs k))],
           st\<lparr> executions := executions st @
              [new_workflow_execution (uuid1 (envs k)) (w_id w) (w_tenant_id w)
                 (now1 (envs k)) ''scheduler'' 1] \<rparr>)
      \<and> (\<forall>res st'. scan_loop st (w # ws) envs k acc = (Inr res, st')
            \<longrightarrow> (w_tenant_id w, w_id w, uuid1 (envs k)) \<in> set res)
      \<and> ((\<forall>w' \<in> set ws. interval w' \<noteq> None) \<longrightarrow>
            (\<exists>res st'. scan_loop st (w # ws) envs k acc = (Inr res, st')
               \<and> (w_tenant_id w, w_id w, uuid1 (envs k)) \<in> set res)))"
proof (intro impI conjI allI)
  assume none: "get_last_completed_execution st (w_id w) = None"
  {
    assume c: "\<exists>r \<in> set (executions st). workflow_id r = w_id w \<and> execution_number r = 1"
    show sw: "scan_workflow st w (envs k) =
          (Inr [], st\<lparr> log := log st @ [Debug_constraint_met (w_id w)] \<rparr>)"
      by (rule scan_workflow_never_run_conflict [OF none c])
    show "scan_loop st (w # ws) envs k acc =
          scan_loop (st\<lparr> log := log st @ [Debug_constraint_met (w_id w)] \<rparr>) ws envs (Suc k) acc"
      by (simp add: sw)
  }
  {
    assume c: "\<not> (\<exists>r \<in> set (executions st). workflow_id r = w_id w \<and> execution_number r = 1)"
    show sw: "scan_workflow st w (envs k) =
          (Inr [(w_tenant_id w, w_id w, uuid1 (envs k))],
           st\<lparr> executions := executions st @
              [new_workflow_execution (uuid1 (envs k)) (w_id w) (w_tenant_id w)
                 (now1 (envs k)) ''scheduler'' 1] \<rparr>)"
      by (rule scan_workflow_never_run_fresh [OF none c])
    fix res st'
    assume "scan_loop st (w # ws) envs k acc = (Inr res, st')"
    with sw have "scan_loop (st\<lparr> executions := executions st @
              [new_workflow_execution (uuid1 (envs k)) (w_id w) (w_tenant_id w)
                 (now1 (envs k)) ''scheduler'' 1] \<rparr>) ws envs (Suc k)
            (acc @ [(w_tenant_id w, w_id w, uuid1 (envs k))]) = (Inr res, st')"
      by simp
    from scan_loop_extends [OF this]
    show "(w_tenant_id w, w_id w, uuid1 (envs k)) \<in> set res"
      by auto
  }
  {
    assume c: "\<not> (\<exists>r \<in> set (executions st). workflow_id r = w_id w \<and> execution_number r = 1)"
      and iv: "\<forall>w' \<in> set ws. interval w' \<noteq> None"
    let ?st1 = "st\<lparr> executions := executions st @
              [new_workflow_execution (uuid1 (envs k)) (w_id w) (w_tenant_id w)
                 (now1 (envs k)) ''scheduler'' 1] \<rparr>"
    let ?entry = "(w_tenant_id w, w_id w, uuid1 (envs k))"
    have step: "scan_loop st (w # ws) envs k acc = scan_loop ?st1 ws envs (Suc k) (acc @ [?entry])"
      by (simp add: scan_workflow_never_run_fresh [OF none c])
    from scan_loop_returns [OF iv, of ?st1 envs "Suc k" "acc @ [?entry]"]
    obtain res st' where r: "scan_loop ?st1 ws envs (Suc k) (acc @ [?entry]) = (Inr res, st')"
      by blast
    from scan_loop_extends [OF r] have "?entry \<in> set res" by auto
    with step r
    show "\<exists>res st'. scan_loop st (w # ws) envs k acc = (Inr res, st') \<and> ?entry \<in> set res"
      by auto
  }
qed

theorem scan_never_run_acquires_first_witness:
  "scan_workflow (ex_db []) ex_w (ex_env 5) =
     (Inr [(''t1'', ''wf1'', ''u1'')], ex_db [ex_exec ''u1'' 1 ''in_progress'' 5])
   \<and> (''t1'', ''wf1'', ''u1'') \<in> set [(''t1'', ''wf1'', ''u1'')]
   \<and> scan_loop (ex_db [ex_exec ''e1'' 1 ''in_progress'' 0]) [ex_w] (\<lambda>k. ex_env 5) 0 [] =
     (Inr [], (ex_db [ex_exec ''e1'' 1 ''in_progress'' 0])
                \<lparr> log := [Debug_constraint_met ''wf1''] \<rparr>)"
proof -
  have n1: "get_last_completed_execution (ex_db []) (w_id ex_w) = None"
    by (simp add: get_last_completed_execution_def ex_db_def first_def limit_def
          order_by_desc_def)
  have f1: "\<not> (\<exists>r \<in> set (executions (ex_db [])).
                workflow_id r = w_id ex_w \<and> execution_number r = 1)"
    by (simp add: ex_db_def)
  have loop1: "scan_loop (ex_db []) [ex_w] (\<lambda>k. ex_env 5) 0 [] =
      (Inr [(''t1'', ''wf1'', ''u1'')], ex_db [ex_exec ''u1'' 1 ''in_progress'' 5])"
    using scan_workflow_never_run_fresh [OF n1 f1, of "ex_env 5"]
    by (simp add: ex_db_def ex_exec_def ex_w_def ex_env_def new_workflow_execution_def)
  let ?st2 = "ex_db [ex_exec ''e1'' 1 ''in_progress'' 0]"
  have n2: "get_last_completed_execution ?st2 (w_id ex_w) = None"
    by (simp add: get_last_completed_execution_def ex_db_def ex_exec_def ex_w_def first_def
          limit_def order_by_desc_def)
  have c2: "\<exists>r \<in> set (executions ?st2). workflow_id r = w_id ex_w \<and> execution_number r = 1"
    by (simp add: ex_db_def ex_exec_def ex_w_def)
  note A = scan_never_run_acquires_first
             [where st = "ex_db []" and w = ex_w and envs = "\<lambda>k. ex_env 5" and k = 0
                and ws = "[]" and acc = "[]"]
  note B = scan_never_run_acquires_first
             [where st = ?st2 and w = ex_w and envs = "\<lambda>k. ex_env 5" and k = 0
                and ws = "[]" and acc = "[]"]
  from A n1 f1 have a1: "scan_workflow (ex_db []) ex_w (ex_env 5) =
          (Inr [(w_tenant_id ex_w, w_id ex_w, uuid1 (ex_env 5))],
           (ex_db [])\<lparr> executions := executions (ex_db []) @
              [new_workflow_execution (uuid1 (ex_env 5)) (w_id ex_w) (w_tenant_id ex_w)
                 (now1 (ex_env 5)) ''scheduler'' 1] \<rparr>)"
    by blast
  from A n1 f1 loop1 have a2: "(w_tenant_id ex_w, w_id ex_w, uuid1 (ex_env 5))
       \<in> set [(''t1'', ''wf1'', ''u1'')]"
    by blast
  from B n2 c2 have b1: "scan_loop ?st2 [ex_w] (\<lambda>k. ex_env 5) 0 [] =
          scan_loop (?st2\<lparr> log := log ?st2 @ [Debug_constraint_met (w_id ex_w)] \<rparr>) []
            (\<lambda>k. ex_env 5) (Suc 0) []"
    by blast
  from a1 a2 b1 show ?thesis
    by (simp add: ex_db_def ex_exec_def ex_w_def ex_env_def new_workflow_execution_def)
qed

lemma first_filter_None:
  "\<not> (\<exists>x \<in> set xs. P x) \<Longrightarrow> first (filter P xs) = None"
  by (simp add: first_None_iff filter_empty_conv)

lemma finish_found:
  assumes "first (filter (\<lambda>r. tenant_id r = tid \<and> workflow_id r = wid \<and> exec_id r = eid)
             (executions st)) = Some we"
  shows "finish_workflow_execution st tid wid eid s err rnd now =
     (Inr (),
      st\<lparr> executions :=
            update_by_id eid
              (\<lambda>r. r\<lparr> is_running := Some rnd,
                      status := s,
                      error := (case err of
                                  None \<Rightarrow> None
                                | Some e \<Rightarrow> if e \<noteq> [] then Some (take 255 e) else None),
                      execution_time := Some (total_seconds (now - started we)) \<rparr>)
              (executions st) \<rparr>)"
proof -
  from first_filter_Some [OF assms] have "exec_id we = eid" by simp
  with assms show ?thesis
    by (simp add: finish_workflow_execution_def)
qed

lemma update_by_id_status:
  "r' \<in> set (update_by_id i f rows) \<Longrightarrow> exec_id r' = i \<Longrightarrow>
   (\<And>r. exec_id (f r) = exec_id r) \<Longrightarrow> \<exists>r \<in> set rows. exec_id r = i \<and> r' = f r"
  by (auto simp: update_by_id_def split: if_splits)

lemma update_by_id_mem:
  "r \<in> set rows \<Longrightarrow> exec_id r = i \<Longrightarrow> f r \<in> set (update_by_id i f rows)"
  by (auto simp: update_by_id_def)

text \<open>
  C10. When no row has the given tenant, workflow and execution identifier,
  \<^verbatim>\<open>finish_workflow_execution\<close> finds nothing, the first attribute assignment is made
  on \<^verbatim>\<open>None\<close> and raises \<^verbatim>\<open>AttributeError\<close> (no exception of the module's own), and the
  store is left as it was.
\<close>

theorem finish_workflow_execution_missing_row:
  "\<not> (\<exists>r \<in> set (executions st). tenant_id r = tid \<and> workflow_id r = wid \<and> exec_id r = eid)
   \<longrightarrow> first (filter (\<lambda>r. tenant_id r = tid \<and> workflow_id r = wid \<and> exec_id r = eid)
                (executions st)) = None
     \<and> finish_workflow_execution st tid wid eid s err rnd now = (Inl AttributeError, st)"
proof
  assume "\<not> (\<exists>r \<in> set (executions st).
              tenant_id r = tid \<and> workflow_id r = wid \<and> exec_id r = eid)"
  then have "first (filter (\<lambda>r. tenant_id r = tid \<and> workflow_id r = wid \<and> exec_id r = eid)
                (executions st)) = None"
    by (rule first_filter_None)
  then show "first (filter (\<lambda>r. tenant_id r = tid \<and> workflow_id r = wid \<and> exec_id r = eid)
                (executions st)) = None
     \<and> finish_workflow_execution st tid wid eid s err rnd now = (Inl AttributeError, st)"
    by (simp add: finish_workflow_execution_def)
qed

theorem finish_workflow_execution_missing_row_witness:
  "finish_workflow_execution (ex_db [ex_exec ''e1'' 1 ''in_progress'' 0])
     ''t1'' ''wf1'' ''e9'' ''success'' None 7 5000000 =
   (Inl AttributeError, ex_db [ex_exec ''e1'' 1 ''in_progress'' 0])"
proof -
  have "\<not> (\<exists>r \<in> set (executions (ex_db [ex_exec ''e1'' 1 ''in_progress'' 0])).
            tenant_id r = ''t1'' \<and> workflow_id r = ''wf1'' \<and> exec_id r = ''e9'')"
    by (simp add: ex_db_def ex_exec_def)
  with finish_workflow_execution_missing_row
         [where st = "ex_db [ex_exec ''e1'' 1 ''in_progress'' 0]" and tid = "''t1''"
            and wid = "''wf1''" and eid = "''e9''" and s = "''success''" and err = None
            and rnd = 7 and now = 5000000]
  show ?thesis by blast
qed

text \<open>
  C9 (as the code has it). For a call of \<^verbatim>\<open>finish_workflow_execution\<close> whose tenant,
  workflow and execution identifier match a row, the call returns normally and the
  row gets the given status, the elapsed time from its start to the current time in
  seconds, and as error the first 255 characters of the given text when the text is
  given and not empty; the error is null when the text is absent or empty.
\<close>

theorem finish_workflow_execution_records:
  "first (filter (\<lambda>r. tenant_id r = tid \<and> workflow_id r = wid \<and> exec_id r = eid)
            (executions st)) = Some we
   \<longrightarrow> fst (finish_workflow_execution st tid wid eid s err rnd now) = Inr ()
     \<and> (\<exists>r' \<in> set (executions (snd (finish_workflow_execution st tid wid eid s err rnd now))).
           exec_id r' = eid \<and> workflow_id r' = wid \<and> tenant_id r' = tid)
     \<and> (\<forall>r' \<in> set (executions (snd (finish_workflow_execution st tid wid eid s err rnd now))).
           exec_id r' = eid \<longrightarrow>
             status r' = s
           \<and> execution_time r' = Some (of_int (now - started we) / 1000000)
           \<and> (err = None \<or> err = Some [] \<longrightarrow> error r' = None)
           \<and> (\<forall>e. err = Some e \<and> e \<noteq> [] \<longrightarrow> error r' = Some (take 255 e)))"
proof (intro impI)
  assume fnd: "first (filter (\<lambda>r. tenant_id r = tid \<and> workflow_id r = wid \<and> exec_id r = eid)
            (executions st)) = Some we"
  let ?f = "\<lambda>r. r\<lparr> is_running := Some rnd, status := s,
                    error := (case err of
                                None \<Rightarrow> None
                              | Some e \<Rightarrow> if e \<noteq> [] then Some (take 255 e) else None),
                    execution_time := Some (total_seconds (now - started we)) \<rparr>"
  let ?res = "finish_workflow_execution st tid wid eid s err rnd now"
  note eq = finish_found [OF fnd, of s err rnd now]
  from first_filter_Some [OF fnd]
  have we: "we \<in> set (executions st)" "tenant_id we = tid" "workflow_id we = wid"
    "exec_id we = eid"
    by simp_all
  have a: "fst ?res = Inr ()"
    by (simp add: eq)
  have "?f we \<in> set (update_by_id eid ?f (executions st))"
    using we(1,4) by (rule update_by_id_mem)
  then have "?f we \<in> set (executions (snd ?res))"
    by (simp add: eq)
  moreover have "exec_id (?f we) = eid \<and> workflow_id (?f we) = wid \<and> tenant_id (?f we) = tid"
    using we(2-4) by simp
  ultimately have b: "\<exists>r' \<in> set (executions (snd ?res)).
           exec_id r' = eid \<and> workflow_id r' = wid \<and> tenant_id r' = tid"
    by (rule bexI [rotated])
  have c: "\<forall>r' \<in> set (executions (snd ?res)).
           exec_id r' = eid \<longrightarrow>
             status r' = s
           \<and> execution_time r' = Some (of_int (now - started we) / 1000000)
           \<and> (err = None \<or> err = Some [] \<longrightarrow> error r' = None)
           \<and> (\<forall>e. err = Some e \<and> e \<noteq> [] \<longrightarrow> error r' = Some (take 255 e))"
  proof (intro ballI impI)
    fix r'
    assume "r' \<in> set (executions (snd ?res))" and "exec_id r' = eid"
    then have "\<exists>r \<in> set (executions st). exec_id r = eid \<and> r' = ?f r"
      using update_by_id_status [where f = ?f and i = eid and rows = "executions st" and r' = r']
      by (simp add: eq)
    then obtain r where r: "r' = ?f r" by blast
    show "status r' = s
           \<and> execution_time r' = Some (of_int (now - started we) / 1000000)
           \<and> (err = None \<or> err = Some [] \<longrightarrow> error r' = None)
           \<and> (\<forall>e. err = Some e \<and> e \<noteq> [] \<longrightarrow> error r' = Some (take 255 e))"
      by (auto simp: r total_seconds_def)
  qed
  from a b c show "fst ?res = Inr ()
     \<and> (\<exists>r' \<in> set (executions (snd ?res)).
           exec_id r' = eid \<and> workflow_id r' = wid \<and> tenant_id r' = tid)
     \<and> (\<forall>r' \<in> set (executions (snd ?res)).
           exec_id r' = eid \<longrightarrow>
             status r' = s
           \<and> execution_time r' = Some (of_int (now - started we) / 1000000)
           \<and> (err = None \<or> err = Some [] \<longrightarrow> error r' = None)
           \<and> (\<forall>e. err = Some e \<and> e \<noteq> [] \<longrightarrow> error r' = Some (take 255 e)))"
    by (intro conjI)
qed

theorem finish_workflow_execution_records_witness:
  "fst (finish_workflow_execution (ex_db [ex_exec ''e1'' 1 ''in_progress'' 0])
          ''t1'' ''wf1'' ''e1'' ''error'' (Some ''boom'') 7 5000000) = Inr ()
   \<and> status (hd (executions (snd (finish_workflow_execution
                (ex_db [ex_exec ''e1'' 1 ''in_progress'' 0])
                ''t1'' ''wf1'' ''e1'' ''error'' (Some ''boom'') 7 5000000)))) = ''error''
   \<and> execution_time (hd (executions (snd (finish_workflow_execution
                (ex_db [ex_exec ''e1'' 1 ''in_progress'' 0])
                ''t1'' ''wf1'' ''e1'' ''error'' (Some ''boom'') 7 5000000)))) = Some 5
   \<and> error (hd (executions (snd (finish_workflow_execution
                (ex_db [ex_exec ''e1'' 1 ''in_progress'' 0])
                ''t1'' ''wf1'' ''e1'' ''error'' (Some ''boom'') 7 5000000)))) = Some ''boom''"
proof -
  let ?we = "ex_exec ''e1'' 1 ''in_progress'' 0"
  let ?res = "finish_workflow_execution (ex_db [?we])
                ''t1'' ''wf1'' ''e1'' ''error'' (Some ''boom'') 7 5000000"
  have h: "first (filter (\<lambda>r. tenant_id r = ''t1'' \<and> workflow_id r = ''wf1'' \<and> exec_id r = ''e1'')
            (executions (ex_db [?we]))) = Some ?we"
    by (simp add: ex_db_def ex_exec_def first_def)
  have t: "Some (of_int (5000000 - started ?we) / 1000000) = Some (5::rat)"
    by (simp add: ex_exec_def)
  have tk: "take 255 ''boom'' = ''boom''" by simp
  have m: "hd (executions (snd ?res)) \<in> set (executions (snd ?res))
           \<and> exec_id (hd (executions (snd ?res))) = ''e1''"
    by (simp add: finish_workflow_execution_def ex_db_def ex_exec_def first_def
          update_by_id_def)
  from finish_workflow_execution_records
         [where st = "ex_db [?we]" and tid = "''t1''" and wid = "''wf1''" and eid = "''e1''"
            and s = "''error''" and err = "Some ''boom''" and rnd = 7 and now = 5000000
            and we = ?we] h
  have "fst ?res = Inr ()"
    and "\<forall>r' \<in> set (executions (snd ?res)). exec_id r' = ''e1'' \<longrightarrow>
             status r' = ''error''
           \<and> execution_time r' = Some (of_int (5000000 - started ?we) / 1000000)
           \<and> (\<forall>e. Some ''boom'' = Some e \<and> e \<noteq> [] \<longrightarrow> error r' = Some (take 255 e))"
    by blast+
  with m have "fst ?res = Inr ()"
    and "status (hd (executions (snd ?res))) = ''error''"
    and "execution_time (hd (executions (snd ?res)))
           = Some (of_int (5000000 - started ?we) / 1000000)"
    and "error (hd (executions (snd ?res))) = Some (take 255 ''boom'')"
    by blast+
  then show ?thesis
    unfolding t tk by (intro conjI)
qed

text \<open>
  An error text that is given but empty is stored as null, not as the empty text.
\<close>

theorem finish_workflow_execution_empty_error_counterexample:
  "error (hd (executions (snd (finish_workflow_execution
       (ex_db [ex_exec ''e1'' 1 ''in_progress'' 0])
       ''t1'' ''wf1'' ''e1'' ''error'' (Some '''') 7 5000000)))) = None
   \<and> error (hd (executions (snd (finish_workflow_execution
       (ex_db [ex_exec ''e1'' 1 ''in_progress'' 0])
       ''t1'' ''wf1'' ''e1'' ''error'' (Some '''') 7 5000000)))) \<noteq> Some (take 255 '''')"
  by (simp add: finish_workflow_execution_def ex_db_def ex_exec_def first_def update_by_id_def)

text \<open>
  C5 (as the code has it). \<^verbatim>\<open>finish_workflow_execution\<close> does not look at the status
  of the row it finds. Called on an execution that is already in a terminal state it
  returns normally, and every row with that identifier then has the status given in
  the call: a terminal row is written again.
\<close>

theorem finish_workflow_execution_overwrites_terminal:
  "first (filter (\<lambda>r. tenant_id r = tid \<and> workflow_id r = wid \<and> exec_id r = eid)
            (executions st)) = Some we
   \<and> status we \<noteq> ''in_progress''
   \<longrightarrow> fst (finish_workflow_execution st tid wid eid s err rnd now) = Inr ()
     \<and> we\<lparr> is_running := Some rnd, status := s,
            error := (case err of
                        None \<Rightarrow> None
                      | Some e \<Rightarrow> if e \<noteq> [] then Some (take 255 e) else None),
            execution_time := Some (total_seconds (now - started we)) \<rparr>
         \<in> set (executions (snd (finish_workflow_execution st tid wid eid s err rnd now)))
     \<and> (s \<noteq> status we \<longrightarrow>
           we \<notin> set (executions (snd (finish_workflow_execution st tid wid eid s err rnd now))))"
proof (intro impI)
  assume h: "first (filter (\<lambda>r. tenant_id r = tid \<and> workflow_id r = wid \<and> exec_id r = eid)
            (executions st)) = Some we
   \<and> status we \<noteq> ''in_progress''"
  then have fnd: "first (filter (\<lambda>r. tenant_id r = tid \<and> workflow_id r = wid \<and> exec_id r = eid)
            (executions st)) = Some we"
    by simp
  let ?f = "\<lambda>r. r\<lparr> is_running := Some rnd, status := s,
                    error := (case err of
                                None \<Rightarrow> None
                              | Some e \<Rightarrow> if e \<noteq> [] then Some (take 255 e) else None),
                    execution_time := Some (total_seconds (now - started we)) \<rparr>"
  let ?res = "finish_workflow_execution st tid wid eid s err rnd now"
  note eq = finish_found [OF fnd, of s err rnd now]
  from first_filter_Some [OF fnd]
  have we: "we \<in> set (executions st)" "exec_id we = eid"
    by simp_all
  have a: "fst ?res = Inr ()"
    by (simp add: eq)
  have "?f we \<in> set (update_by_id eid ?f (executions st))"
    using we by (rule update_by_id_mem)
  then have b: "?f we \<in> set (executions (snd ?res))"
    by (simp add: eq)
  have c: "s \<noteq> status we \<longrightarrow> we \<notin> set (executions (snd ?res))"
  proof
    assume ne: "s \<noteq> status we"
    show "we \<notin> set (executions (snd ?res))"
    proof
      assume "we \<in> set (executions (snd ?res))"
      then have "\<exists>r \<in> set (executions st). exec_id r = eid \<and> we = ?f r"
        using update_by_id_status [where f = ?f and i = eid and rows = "executions st" and r' = we]
          we(2)
        by (simp add: eq)
      then obtain r where "we = ?f r" by blast
      then have "status we = status (?f r)" by simp
      with ne show False by simp
    qed
  qed
  from a b c show "fst ?res = Inr ()
     \<and> ?f we \<in> set (executions (snd ?res))
     \<and> (s \<noteq> status we \<longrightarrow> we \<notin> set (executions (snd ?res)))"
    by (intro conjI)
qed

theorem finish_workflow_execution_overwrites_terminal_witness:
  "fst (finish_workflow_execution (ex_db [ex_exec ''e1'' 1 ''success'' 0])
          ''t1'' ''wf1'' ''e1'' ''error'' (Some ''late'') 7 5000000) = Inr ()
   \<and> ex_exec ''e1'' 1 ''success'' 0
       \<notin> set (executions (snd (finish_workflow_execution (ex_db [ex_exec ''e1'' 1 ''success'' 0])
                ''t1'' ''wf1'' ''e1'' ''error'' (Some ''late'') 7 5000000)))"
proof -
  let ?we = "ex_exec ''e1'' 1 ''success'' 0"
  have h: "first (filter (\<lambda>r. tenant_id r = ''t1'' \<and> workflow_id r = ''wf1'' \<and> exec_id r = ''e1'')
            (executions (ex_db [?we]))) = Some ?we
          \<and> status ?we \<noteq> ''in_progress''"
    by (simp add: ex_db_def ex_exec_def first_def)
  have ne: "''error'' \<noteq> status ?we"
    by (simp add: ex_exec_def)
  from finish_workflow_execution_overwrites_terminal
         [where st = "ex_db [?we]" and tid = "''t1''" and wid = "''wf1''" and eid = "''e1''"
            and s = "''error''" and err = "Some ''late''" and rnd = 7 and now = 5000000
            and we = ?we] h ne
  show ?thesis by blast
qed

text \<open>
  A row with status \<^verbatim>\<open>success\<close> is completed a second time, with status
  \<^verbatim>\<open>error\<close>: no exception, and the row is rewritten.
\<close>

theorem finish_workflow_execution_terminal_counterexample:
  "status (ex_exec ''e1'' 1 ''success'' 0) = ''success''
   \<and> finish_workflow_execution (ex_db [ex_exec ''e1'' 1 ''success'' 0])
       ''t1'' ''wf1'' ''e1'' ''error'' (Some ''late'') 7 5000000 =
     (Inr (),
      ex_db [(ex_exec ''e1'' 1 ''error'' 0)
               \<lparr> is_running := Some 7, error := Some ''late'', execution_time := Some 5 \<rparr>])
   \<and> snd (finish_workflow_execution (ex_db [ex_exec ''e1'' 1 ''success'' 0])
       ''t1'' ''wf1'' ''e1'' ''error'' (Some ''late'') 7 5000000)
     \<noteq> ex_db [ex_exec ''e1'' 1 ''success'' 0]"
  by (simp add: finish_workflow_execution_def ex_db_def ex_exec_def first_def update_by_id_def
        total_seconds_def)

lemma get_last_completed_execution_None_iff:
  "get_last_completed_execution st wid = None \<longleftrightarrow>
     \<not> (\<exists>r \<in> set (executions st). workflow_id r = wid \<and>
          (status r = ''success'' \<or> status r = ''error''
             \<or> status r = ''providers_not_configured''))"
  unfolding get_last_completed_execution_def first_limit_one first_order_by_desc_None
  by (simp only: filter_empty_conv) blast

lemma get_last_completed_execution_Some:
  assumes "get_last_completed_execution st wid = Some l"
  shows "l \<in> set (executions st) \<and> workflow_id l = wid
     \<and> (status l = ''success'' \<or> status l = ''error'' \<or> status l = ''providers_not_configured'')
     \<and> (\<forall>r \<in> set (executions st).
           workflow_id r = wid \<and>
           (status r = ''success'' \<or> status r = ''error''
              \<or> status r = ''providers_not_configured'')
           \<longrightarrow> execution_number r \<le> execution_number l)"
proof -
  let ?P = "\<lambda>r. workflow_id r = wid \<and>
     (status r = ''success'' \<or> status r = ''error'' \<or> status r = ''providers_not_configured'')"
  from assms have "first (order_by_desc execution_number (filter ?P (executions st))) = Some l"
    by (simp only: get_last_completed_execution_def first_limit_one)
  from first_order_by_desc_Some [OF this]
  have "l \<in> set (filter ?P (executions st))"
    and "\<forall>y \<in> set (filter ?P (executions st)). execution_number y \<le> execution_number l"
    by blast+
  then show ?thesis by simp
qed

text \<open>
  C6 (as the code has it). \<^verbatim>\<open>get_last_completed_execution\<close> selects among the rows of
  the workflow whose status is \<^verbatim>\<open>success\<close>, \<^verbatim>\<open>error\<close> or
  \<^verbatim>\<open>providers_not_configured\<close> (a row with status \<^verbatim>\<open>timeout\<close> or \<^verbatim>\<open>in_progress\<close> is
  never selected), and among those it returns one with the highest execution number;
  it returns nothing exactly when there is no such row. The start time plays no part.
\<close>

theorem get_last_completed_execution_highest_number:
  "(get_last_completed_execution st wid = None \<longleftrightarrow>
      \<not> (\<exists>r \<in> set (executions st). workflow_id r = wid \<and>
           (status r = ''success'' \<or> status r = ''error''
              \<or> status r = ''providers_not_configured'')))
   \<and> (get_last_completed_execution st wid = Some l \<longrightarrow>
        l \<in> set (executions st) \<and> workflow_id l = wid
      \<and> (status l = ''success'' \<or> status l = ''error''
           \<or> status l = ''providers_not_configured'')
      \<and> (\<forall>r \<in> set (executions st).
            workflow_id r = wid \<and>
            (status r = ''success'' \<or> status r = ''error''
               \<or> status r = ''providers_not_configured'')
            \<longrightarrow> execution_number r \<le> execution_number l))"
  using get_last_completed_execution_None_iff [of st wid]
    get_last_completed_execution_Some [of st wid l]
  by blast

theorem get_last_completed_execution_highest_number_witness:
  "ex_exec ''e2'' 2 ''success'' 50
     \<in> set (executions (ex_db [ex_exec ''e1'' 1 ''success'' 100, ex_exec ''e2'' 2 ''success'' 50,
                               ex_exec ''e3'' 3 ''timeout'' 200]))
   \<and> execution_number (ex_exec ''e1'' 1 ''success'' 100)
       \<le> execution_number (ex_exec ''e2'' 2 ''success'' 50)"
proof -
  let ?st = "ex_db [ex_exec ''e1'' 1 ''success'' 100, ex_exec ''e2'' 2 ''success'' 50,
                    ex_exec ''e3'' 3 ''timeout'' 200]"
  have h: "get_last_completed_execution ?st ''wf1'' = Some (ex_exec ''e2'' 2 ''success'' 50)"
    by (simp add: get_last_completed_execution_def ex_db_def ex_exec_def
          first_def limit_def order_by_desc_def)
  have m: "ex_exec ''e1'' 1 ''success'' 100 \<in> set (executions ?st)
     \<and> workflow_id (ex_exec ''e1'' 1 ''success'' 100) = ''wf1''
     \<and> status (ex_exec ''e1'' 1 ''success'' 100) = ''success''"
    by (simp add: ex_db_def ex_exec_def)
  from get_last_completed_execution_highest_number
         [where st = ?st and wid = "''wf1''" and l = "ex_exec ''e2'' 2 ''success'' 50"] h m
  show ?thesis by blast
qed

text \<open>
  Two completed executions of one workflow, the one with the higher number started
  earlier: the higher number is selected, not the later start.
\<close>

theorem get_last_completed_execution_started_counterexample:
  "get_last_completed_execution
     (ex_db [ex_exec ''e1'' 1 ''success'' 100, ex_exec ''e2'' 2 ''success'' 50]) ''wf1''
     = Some (ex_exec ''e2'' 2 ''success'' 50)
   \<and> status (ex_exec ''e1'' 1 ''success'' 100) = ''success''
   \<and> started (ex_exec ''e2'' 2 ''success'' 50) < started (ex_exec ''e1'' 1 ''success'' 100)"
  by (simp add: get_last_completed_execution_def ex_db_def ex_exec_def
        first_def limit_def order_by_desc_def)

text \<open>
  C7 (as the code has it). The scan has no lookback window. A completed execution is
  found by \<^verbatim>\<open>get_last_completed_execution\<close> however long ago it started, so a workflow
  whose last completed execution started more than 7 days ago is not taken for one
  that never ran: it is due when its interval has elapsed since that start, and the
  lock is then tried on that execution's number plus one.
\<close>

theorem scan_has_no_lookback_window:
  "(r \<in> set (executions st) \<and> workflow_id r = w_id w
      \<and> (status r = ''success'' \<or> status r = ''error''
           \<or> status r = ''providers_not_configured'')
    \<longrightarrow> (\<exists>l. get_last_completed_execution st (w_id w) = Some l
            \<and> execution_number r \<le> execution_number l))
   \<and> (get_last_completed_execution st (w_id w) = Some l \<and> interval w = Some secs
      \<and> started l + timedelta_days 7 < current_time env
      \<and> interval_elapsed l secs (current_time env)
      \<and> \<not> (\<exists>r \<in> set (executions st).
              workflow_id r = w_id w \<and> execution_number r = execution_number l + 1)
    \<longrightarrow> scan_workflow st w env =
          (Inr [(w_tenant_id w, w_id w, uuid1 env)],
           st\<lparr> executions := executions st @
              [new_workflow_execution (uuid1 env) (w_id w) (w_tenant_id w) (now1 env)
                 ''scheduler'' (execution_number l + 1)] \<rparr>))"
proof (intro conjI impI)
  assume r: "r \<in> set (executions st) \<and> workflow_id r = w_id w
      \<and> (status r = ''success'' \<or> status r = ''error''
           \<or> status r = ''providers_not_configured'')"
  then have "get_last_completed_execution st (w_id w) \<noteq> None"
    unfolding get_last_completed_execution_None_iff by blast
  then obtain l' where l': "get_last_completed_execution st (w_id w) = Some l'"
    by blast
  from get_last_completed_execution_Some [OF l'] r
  have "execution_number r \<le> execution_number l'" by blast
  with l' show "\<exists>l. get_last_completed_execution st (w_id w) = Some l
            \<and> execution_number r \<le> execution_number l"
    by blast
next
  assume h: "get_last_completed_execution st (w_id w) = Some l \<and> interval w = Some secs
      \<and> started l + timedelta_days 7 < current_time env
      \<and> interval_elapsed l secs (current_time env)
      \<and> \<not> (\<exists>r \<in> set (executions st).
              workflow_id r = w_id w \<and> execution_number r = execution_number l + 1)"
  then have h1: "get_last_completed_execution st (w_id w) = Some l"
    and h2: "interval w = Some secs"
    and h3: "interval_elapsed l secs (current_time env)"
    and h4: "\<not> (\<exists>r \<in> set (executions st).
              workflow_id r = w_id w \<and> execution_number r = execution_number l + 1)"
    by blast+
  show "scan_workflow st w env =
          (Inr [(w_tenant_id w, w_id w, uuid1 env)],
           st\<lparr> executions := executions st @
              [new_workflow_execution (uuid1 env) (w_id w) (w_tenant_id w) (now1 env)
                 ''scheduler'' (execution_number l + 1)] \<rparr>)"
    by (rule scan_workflow_due_fresh [OF h1 h2 h3 h4])
qed

theorem scan_has_no_lookback_window_witness:
  "scan_workflow (ex_db [ex_exec ''e5'' 5 ''success'' 0]) ex_w (ex_env 691200000000) =
     (Inr [(w_tenant_id ex_w, w_id ex_w, uuid1 (ex_env 691200000000))],
      (ex_db [ex_exec ''e5'' 5 ''success'' 0])
        \<lparr> executions := executions (ex_db [ex_exec ''e5'' 5 ''success'' 0]) @
           [new_workflow_execution (uuid1 (ex_env 691200000000)) (w_id ex_w) (w_tenant_id ex_w)
              (now1 (ex_env 691200000000)) ''scheduler''
              (execution_number (ex_exec ''e5'' 5 ''success'' 0) + 1)] \<rparr>)"
proof -
  let ?l = "ex_exec ''e5'' 5 ''success'' 0"
  let ?st = "ex_db [?l]"
  let ?env = "ex_env 691200000000"
  have h: "get_last_completed_execution ?st (w_id ex_w) = Some ?l \<and> interval ex_w = Some 300
      \<and> started ?l + timedelta_days 7 < current_time ?env
      \<and> interval_elapsed ?l 300 (current_time ?env)
      \<and> \<not> (\<exists>r \<in> set (executions ?st).
              workflow_id r = w_id ex_w \<and> execution_number r = execution_number ?l + 1)"
    by (simp add: get_last_completed_execution_def ex_db_def ex_exec_def ex_w_def ex_env_def
          first_def limit_def order_by_desc_def timedelta_days_def interval_elapsed_def
          timedelta_seconds_def)
  from scan_has_no_lookback_window
         [where st = ?st and w = ex_w and l = ?l and secs = 300 and env = ?env and r = ?l] h
  show ?thesis by blast
qed

text \<open>
  The only completed execution, number 5, started 8 days before the scan: the scan
  acquires number 6, where a workflow that never ran would get number 1.
\<close>

theorem scan_lookback_counterexample:
  "get_last_completed_execution (ex_db [ex_exec ''e5'' 5 ''success'' 0]) (w_id ex_w)
     = Some (ex_exec ''e5'' 5 ''success'' 0)
   \<and> started (ex_exec ''e5'' 5 ''success'' 0) + timedelta_days 7
       < current_time (ex_env 691200000000)
   \<and> scan_workflow (ex_db [ex_exec ''e5'' 5 ''success'' 0]) ex_w (ex_env 691200000000) =
       (Inr [(''t1'', ''wf1'', ''u1'')],
        ex_db [ex_exec ''e5'' 5 ''success'' 0, ex_exec ''u1'' 6 ''in_progress'' 691200000000])
   \<and> execution_number (ex_exec ''u1'' 6 ''in_progress'' 691200000000) \<noteq> 1"
  by (simp add: scan_workflow_def create_workflow_execution_def violates_unique_def
        new_workflow_execution_def get_last_completed_execution_def ex_db_def ex_exec_def
        ex_w_def ex_env_def first_def limit_def order_by_desc_def timedelta_days_def
        interval_elapsed_def timedelta_seconds_def Let_def)

end
